theory Spec2Isabelle
  imports Main
begin

section \<open>The multi-provider chat client of \<^verbatim>\<open>ask.py\<close>\<close>

text \<open>
  A shallow embedding of class \<^verbatim>\<open>AIClient\<close>. The object is a record that every
  method takes and returns; a raised exception is the \<open>Inl\<close> of a sum. What lies outside
  the program is a parameter: the four \<^verbatim>\<open>*_AVAILABLE\<close> flags set by the imports, the
  process environment, the credentials file, and the remote service answering a request.

  Strings are lists of 8-bit characters. \<^verbatim>\<open>str.lower\<close> is modelled on the ASCII letters,
  which is where it decides the dispatch: the four provider names are ASCII.
\<close>

subsection \<open>Python helpers\<close>

definition lower_char :: "char \<Rightarrow> char" where
  "lower_char c =
     (let n = (of_char c :: nat) in if 65 \<le> n \<and> n \<le> 90 then char_of (n + 32) else c)"

definition lower :: "string \<Rightarrow> string" where
  "lower s = map lower_char s"

text \<open>Truth value of an \<^verbatim>\<open>Optional[str]\<close>: \<^verbatim>\<open>None\<close> and \<^verbatim>\<open>''\<close> are false.\<close>

fun truthy :: "string option \<Rightarrow> bool" where
  "truthy None = False"
| "truthy (Some s) = (s \<noteq> [])"

text \<open>\<^verbatim>\<open>x or d\<close> for an \<^verbatim>\<open>Optional[str]\<close> \<open>x\<close> and a string \<open>d\<close>.\<close>

fun or_default :: "string option \<Rightarrow> string \<Rightarrow> string" where
  "or_default None d = d"
| "or_default (Some s) d = (if s \<noteq> [] then s else d)"

subsection \<open>Data\<close>

datatype error =
    ImportError string
  | ValueError string
  | AttributeError string
  | ProviderError string

text \<open>A turn is the dictionary \<^verbatim>\<open>{"role": r, "content": t}\<close>.\<close>

record turn =
  role :: string
  content :: string

definition mk_turn :: "string \<Rightarrow> string \<Rightarrow> turn" where
  "mk_turn r t = \<lparr>role = r, content = t\<rparr>"

text \<open>
  The object bound to \<^verbatim>\<open>self.client\<close>. \<^verbatim>\<open>genai.configure(api_key=k)\<close> is a setting of
  the module, so the Gemini handle records the key it was configured with beside the model
  name given to \<^verbatim>\<open>GenerativeModel\<close>; the other three constructors take the key.
\<close>

datatype handle =
    GenerativeModel string string
  | OpenAI string
  | Anthropic string
  | Groq string

type_synonym config = "string \<rightharpoonup> string"

record AIClient =
  provider :: string
  model :: "string option"
  conversation_history :: "turn list"
  config :: config
  client :: "handle option"

text \<open>The module flags \<^verbatim>\<open>GEMINI_AVAILABLE\<close>, ..., set by the guarded imports.\<close>

record sdk =
  GEMINI_AVAILABLE :: bool
  OPENAI_AVAILABLE :: bool
  ANTHROPIC_AVAILABLE :: bool
  GROQ_AVAILABLE :: bool

type_synonym environ = "string \<rightharpoonup> string"

text \<open>\<^verbatim>\<open>os.getenv(name, default)\<close>.\<close>

definition getenv :: "environ \<Rightarrow> string \<Rightarrow> string \<Rightarrow> string" where
  "getenv env name d = (case env name of None \<Rightarrow> d | Some v \<Rightarrow> v)"

text \<open>
  The file \<^verbatim>\<open>~/.ai_cli_config.json\<close>: absent, or a JSON object with string values
  (the four keys of the program are credentials, which are strings) together with its
  permission bits. \<^verbatim>\<open>json.dump\<close> followed by \<^verbatim>\<open>json.load\<close> gives back such an object
  unchanged, so the file is modelled by the mapping it holds. Failures of the operating
  system (an unreadable or unwritable file) are not modelled.
\<close>

record config_file =
  contents :: config
  mode :: nat

type_synonym filesystem = "config_file option"

subsection \<open>Loading and saving the configuration\<close>

text \<open>\<^verbatim>\<open>d.setdefault(k, v)\<close>: stores \<open>v\<close> only where \<open>k\<close> has no value yet.\<close>

definition setdefault :: "config \<Rightarrow> string \<Rightarrow> string \<Rightarrow> config" where
  "setdefault d k v = (case d k of None \<Rightarrow> d(k \<mapsto> v) | Some _ \<Rightarrow> d)"

text \<open>What \<^verbatim>\<open>load_config\<close> starts from: \<^verbatim>\<open>{}\<close>, replaced by the file's object when the
  file exists.\<close>

definition persisted :: "filesystem \<Rightarrow> config" where
  "persisted fs = (case fs of None \<Rightarrow> Map.empty | Some f \<Rightarrow> contents f)"

definition load_config :: "filesystem \<Rightarrow> environ \<Rightarrow> AIClient \<Rightarrow> AIClient" where
  "load_config fs env self =
     (let c0 = persisted fs;
          c1 = setdefault c0 ''gemini_api_key'' (getenv env ''GEMINI_API_KEY'' '''');
          c2 = setdefault c1 ''openai_api_key'' (getenv env ''OPENAI_API_KEY'' '''');
          c3 = setdefault c2 ''anthropic_api_key'' (getenv env ''ANTHROPIC_API_KEY'' '''');
          c4 = setdefault c3 ''groq_api_key'' (getenv env ''GROQ_API_KEY'' '''')
      in self\<lparr>config := c4\<rparr>)"

text \<open>\<^verbatim>\<open>0o600\<close> is 384.\<close>

definition save_config :: "AIClient \<Rightarrow> filesystem \<Rightarrow> filesystem" where
  "save_config self fs = Some \<lparr>contents = config self, mode = 384\<rparr>"

subsection \<open>Constructing the provider handle\<close>

text \<open>
  Each branch raises before it assigns anything, so a failure needs no state: the result
  is the error or the initialised object. \<^verbatim>\<open>self.config.get(k)\<close> is \<^verbatim>\<open>None\<close> for a
  missing key, and \<^verbatim>\<open>not api_key\<close> holds for \<^verbatim>\<open>None\<close> and for the empty string.
\<close>

definition initialize_client :: "sdk \<Rightarrow> AIClient \<Rightarrow> error + AIClient" where
  "initialize_client avail self =
     (if provider self = ''gemini'' then
        if \<not> GEMINI_AVAILABLE avail then
          Inl (ImportError ''google-generativeai not installed. Run: pip install google-generativeai'')
        else let api_key = config self ''gemini_api_key'' in
          if \<not> truthy api_key then
            Inl (ValueError ''Gemini API key not found. Set GEMINI_API_KEY or run --configure'')
          else let m = or_default (model self) ''gemini-pro'' in
            Inr (self\<lparr>model := Some m, client := Some (GenerativeModel (the api_key) m)\<rparr>)
      else if provider self = ''openai'' then
        if \<not> OPENAI_AVAILABLE avail then
          Inl (ImportError ''openai not installed. Run: pip install openai'')
        else let api_key = config self ''openai_api_key'' in
          if \<not> truthy api_key then
            Inl (ValueError ''OpenAI API key not found. Set OPENAI_API_KEY or run --configure'')
          else
            Inr (self\<lparr>client := Some (OpenAI (the api_key)),
                      model := Some (or_default (model self) ''gpt-4-turbo-preview'')\<rparr>)
      else if provider self = ''anthropic'' then
        if \<not> ANTHROPIC_AVAILABLE avail then
          Inl (ImportError ''anthropic not installed. Run: pip install anthropic'')
        else let api_key = config self ''anthropic_api_key'' in
          if \<not> truthy api_key then
            Inl (ValueError ''Anthropic API key not found. Set ANTHROPIC_API_KEY or run --configure'')
          else
            Inr (self\<lparr>client := Some (Anthropic (the api_key)),
                      model := Some (or_default (model self) ''claude-3-5-sonnet-20241022'')\<rparr>)
      else if provider self = ''groq'' then
        if \<not> GROQ_AVAILABLE avail then
          Inl (ImportError ''groq not installed. Run: pip install groq'')
        else let api_key = config self ''groq_api_key'' in
          if \<not> truthy api_key then
            Inl (ValueError ''Groq API key not found. Set GROQ_API_KEY or run --configure'')
          else
            Inr (self\<lparr>client := Some (Groq (the api_key)),
                      model := Some (or_default (model self) ''llama-3.3-70b-versatile'')\<rparr>)
      else Inl (ValueError (''Unknown provider: '' @ provider self)))"

text \<open>\<^verbatim>\<open>AIClient.__init__\<close>. The attribute \<^verbatim>\<open>client\<close> does not exist before
  \<^verbatim>\<open>initialize_client\<close> assigns it.\<close>

definition AIClient_init ::
  "sdk \<Rightarrow> filesystem \<Rightarrow> environ \<Rightarrow> string \<Rightarrow> string option \<Rightarrow> error + AIClient" where
  "AIClient_init avail fs env provider_arg model_arg =
     initialize_client avail
       (load_config fs env
          \<lparr>provider = lower provider_arg, model = model_arg,
           conversation_history = [], config = Map.empty, client = None\<rparr>)"

subsection \<open>Sending a message\<close>

text \<open>
  The three calls the program makes on a handle, with their arguments:
  \<^verbatim>\<open>client.generate_content(message)\<close>,
  \<^verbatim>\<open>client.chat.completions.create(model=, messages=)\<close> and
  \<^verbatim>\<open>client.messages.create(model=, max_tokens=, messages=[, system=])\<close>.
  The remote service is a function from the call to the text the program reads out of the
  response (\<open>Inr\<close>), or to the message of the exception raised by the call or by that
  read (\<open>Inl\<close>); in every branch nothing happens between the call and the read.
\<close>

datatype request =
    GenerateContent handle string
  | ChatCompletionsCreate handle "string option" "turn list"
  | MessagesCreate handle "string option" nat "turn list" "string option"

type_synonym provider_api = "request \<Rightarrow> string + string"

definition no_client :: error where
  "no_client =
     AttributeError ([CHR 0x27] @ ''AIClient'' @ [CHR 0x27] @ '' object has no attribute ''
                     @ [CHR 0x27] @ ''client'' @ [CHR 0x27])"

text \<open>
  \<^verbatim>\<open>chat\<close> returns what the call returns or raises, and the object as the call leaves
  it. A method that reaches its end returns \<^verbatim>\<open>None\<close>, hence the \<open>option\<close>.
\<close>

definition chat ::
  "provider_api \<Rightarrow> AIClient \<Rightarrow> string \<Rightarrow> string option \<Rightarrow> (error + string option) \<times> AIClient" where
  "chat api self message system_prompt =
     (if provider self = ''gemini'' then
        let message1 =
              (if truthy system_prompt \<and> conversation_history self = []
               then the system_prompt @ [CHR 0x0A, CHR 0x0A] @ message else message)
        in (case client self of
              None \<Rightarrow> (Inl no_client, self)
            | Some h \<Rightarrow>
               (case api (GenerateContent h message1) of
                  Inl e \<Rightarrow> (Inl (ProviderError e), self)
                | Inr text \<Rightarrow> (Inr (Some text), self)))
      else if provider self = ''openai'' then
        let messages =
              (if truthy system_prompt then [mk_turn ''system'' (the system_prompt)] else [])
              @ conversation_history self @ [mk_turn ''user'' message]
        in (case client self of
              None \<Rightarrow> (Inl no_client, self)
            | Some h \<Rightarrow>
               (case api (ChatCompletionsCreate h (model self) messages) of
                  Inl e \<Rightarrow> (Inl (ProviderError e), self)
                | Inr reply \<Rightarrow>
                   (Inr (Some reply),
                    self\<lparr>conversation_history :=
                           conversation_history self
                           @ [mk_turn ''user'' message, mk_turn ''assistant'' reply]\<rparr>)))
      else if provider self = ''anthropic'' then
        let self1 = self\<lparr>conversation_history :=
                           conversation_history self @ [mk_turn ''user'' message]\<rparr>;
            system = (if truthy system_prompt then system_prompt else None)
        in (case client self1 of
              None \<Rightarrow> (Inl no_client, self1)
            | Some h \<Rightarrow>
               (case api (MessagesCreate h (model self1) 4096 (conversation_history self1) system) of
                  Inl e \<Rightarrow> (Inl (ProviderError e), self1)
                | Inr reply \<Rightarrow>
                   (Inr (Some reply),
                    self1\<lparr>conversation_history :=
                            conversation_history self1 @ [mk_turn ''assistant'' reply]\<rparr>)))
      else if provider self = ''groq'' then
        let messages =
              (if truthy system_prompt then [mk_turn ''system'' (the system_prompt)] else [])
              @ conversation_history self @ [mk_turn ''user'' message]
        in (case client self of
              None \<Rightarrow> (Inl no_client, self)
            | Some h \<Rightarrow>
               (case api (ChatCompletionsCreate h (model self) messages) of
                  Inl e \<Rightarrow> (Inl (ProviderError e), self)
                | Inr reply \<Rightarrow>
                   (Inr (Some reply),
                    self\<lparr>conversation_history :=
                           conversation_history self
                           @ [mk_turn ''user'' message, mk_turn ''assistant'' reply]\<rparr>)))
      else (Inr None, self))"

definition clear_history :: "AIClient \<Rightarrow> AIClient" where
  "clear_history self = self\<lparr>conversation_history := []\<rparr>"

text \<open>
  Successive calls of \<^verbatim>\<open>chat\<close> on one object, as the interactive loop and any other
  caller make them: each element is one call, with the service as it answers that call.
  The outcomes are returned in order with the object after the last call.
\<close>

fun chats ::
  "AIClient \<Rightarrow> (provider_api \<times> string \<times> string option) list
     \<Rightarrow> (error + string option) list \<times> AIClient" where
  "chats self [] = ([], self)"
| "chats self ((api, message, system_prompt) # rest) =
     (let (r, self1) = chat api self message system_prompt;
          (rs, self2) = chats self1 rest
      in (r # rs, self2))"

subsection \<open>The interactive loop\<close>

text \<open>\<^verbatim>\<open>str.strip()\<close> on ASCII text: the white space of Python is the characters
  9 to 13, 28 to 31 and 32.\<close>

definition is_space :: "char \<Rightarrow> bool" where
  "is_space c = (let n = (of_char c :: nat) in (9 \<le> n \<and> n \<le> 13) \<or> (28 \<le> n \<and> n \<le> 32))"

definition strip :: "string \<Rightarrow> string" where
  "strip s = rev (dropWhile is_space (rev (dropWhile is_space s)))"

text \<open>
  What \<^verbatim>\<open>input()\<close> delivers in one round of the loop: a line, given with the service
  as it answers the call that line may lead to, or the user's interrupt.
\<close>

datatype event = Line string provider_api | KeyboardInterrupt

text \<open>
  \<^verbatim>\<open>interactive_mode\<close> on the events it has received so far; the printed text is left
  out. The result is \<open>True\<close> when the loop has ended (\<^verbatim>\<open>break\<close>) and \<open>False\<close> when it is
  back at \<^verbatim>\<open>input()\<close>, with the client as it then is. An exception of \<^verbatim>\<open>chat\<close> is
  caught by \<^verbatim>\<open>except Exception\<close> and the loop goes on with the object as the failed call
  left it.
\<close>

fun interactive_mode :: "AIClient \<Rightarrow> string option \<Rightarrow> event list \<Rightarrow> bool \<times> AIClient" where
  "interactive_mode cl system_prompt [] = (False, cl)"
| "interactive_mode cl system_prompt (KeyboardInterrupt # rest) = (True, cl)"
| "interactive_mode cl system_prompt (Line raw api # rest) =
     (let user_input = strip raw in
      if user_input = [] then interactive_mode cl system_prompt rest
      else if lower user_input \<in> set [''exit'', ''quit''] then (True, cl)
      else if lower user_input = ''clear'' then
        interactive_mode (clear_history cl) system_prompt rest
      else interactive_mode (snd (chat api cl user_input system_prompt)) system_prompt rest)"

subsection \<open>The error classes of the specification\<close>

text \<open>
  The specification's \<open>ConfigurationError\<close> (a missing or invalid provider selection, a
  missing credential, an unavailable provider integration) is what the constructor raises:
  a \<^verbatim>\<open>ValueError\<close> or an \<^verbatim>\<open>ImportError\<close>.
\<close>

fun ConfigurationError :: "error \<Rightarrow> bool" where
  "ConfigurationError (ImportError _) = True"
| "ConfigurationError (ValueError _) = True"
| "ConfigurationError _ = False"

subsection \<open>Services and clients for concrete runs\<close>

definition answering :: "string \<Rightarrow> provider_api" where
  "answering reply r = Inr reply"

definition failing :: "string \<Rightarrow> provider_api" where
  "failing msg r = Inl msg"

text \<open>A service that answers a \<^verbatim>\<open>generate_content\<close> call with the very text it was
  sent, so that the reply shows the composed input.\<close>

fun echoing :: provider_api where
  "echoing (GenerateContent h text) = Inr text"
| "echoing (ChatCompletionsCreate h m ts) = Inr []"
| "echoing (MessagesCreate h m n ts s) = Inr []"

definition all_available :: sdk where
  "all_available =
     \<lparr>GEMINI_AVAILABLE = True, OPENAI_AVAILABLE = True,
      ANTHROPIC_AVAILABLE = True, GROQ_AVAILABLE = True\<rparr>"

text \<open>A constructed client with the given provider, handle, model and transcript;
  \<^verbatim>\<open>chat\<close> reads nothing else of the object.\<close>

definition ready_client :: "string \<Rightarrow> handle \<Rightarrow> string \<Rightarrow> turn list \<Rightarrow> AIClient" where
  "ready_client p h m hist =
     \<lparr>provider = p, model = Some m, conversation_history = hist,
      config = Map.empty, client = Some h\<rparr>"

text \<open>
  A whole run, as \<^verbatim>\<open>main\<close> makes it: the constructor, then calls of \<^verbatim>\<open>chat\<close> on the
  object it returned. The result is the constructor's error, or the outcomes of the calls
  with the transcript after the last one.
\<close>

definition session ::
  "sdk \<Rightarrow> filesystem \<Rightarrow> environ \<Rightarrow> string \<Rightarrow> string option
     \<Rightarrow> (provider_api \<times> string \<times> string option) list
     \<Rightarrow> error + ((error + string option) list \<times> turn list)" where
  "session avail fs env provider_arg model_arg calls =
     (case AIClient_init avail fs env provider_arg model_arg of
        Inl e \<Rightarrow> Inl e
      | Inr cl \<Rightarrow> (case chats cl calls of (rs, cl1) \<Rightarrow> Inr (rs, conversation_history cl1)))"

section \<open>Properties\<close>

subsection \<open>Facts about the helpers\<close>



lemma lower_names:
  "lower ''gemini'' = ''gemini''" "lower ''openai'' = ''openai''"
  "lower ''anthropic'' = ''anthropic''" "lower ''groq'' = ''groq''"
  by code_simp+

lemma setdefault_apply:
  "setdefault d k v x = (if x = k \<and> d k = None then Some v else d x)"
  by (simp add: setdefault_def split: option.splits)

lemma config_load_config:
  "config (load_config fs env self) k =
     (case persisted fs k of
        Some v \<Rightarrow> Some v
      | None \<Rightarrow>
          if k = ''gemini_api_key'' then Some (getenv env ''GEMINI_API_KEY'' '''')
          else if k = ''openai_api_key'' then Some (getenv env ''OPENAI_API_KEY'' '''')
          else if k = ''anthropic_api_key'' then Some (getenv env ''ANTHROPIC_API_KEY'' '''')
          else if k = ''groq_api_key'' then Some (getenv env ''GROQ_API_KEY'' '''')
          else None)"
  by (simp add: load_config_def Let_def setdefault_apply split: option.splits)

lemma load_config_other:
  "provider (load_config fs env self) = provider self"
  "model (load_config fs env self) = model self"
  "conversation_history (load_config fs env self) = conversation_history self"
  "client (load_config fs env self) = client self"
  by (simp_all add: load_config_def Let_def)

lemma load_config_model_update:
  "load_config fs env (self\<lparr>model := m\<rparr>) = (load_config fs env self)\<lparr>model := m\<rparr>"
  by (simp add: load_config_def Let_def)

subsection \<open>Facts about the constructor\<close>

lemma initialize_client_model:
  "initialize_client avail self = Inr c \<Longrightarrow>
     model c = Some (or_default (model self)
       (if provider self = ''gemini'' then ''gemini-pro''
        else if provider self = ''openai'' then ''gpt-4-turbo-preview''
        else if provider self = ''anthropic'' then ''claude-3-5-sonnet-20241022''
        else ''llama-3.3-70b-versatile''))"
  by (auto simp add: initialize_client_def Let_def split: if_splits)

lemma initialize_client_gemini_handle:
  "initialize_client avail self = Inr c \<Longrightarrow> client c = Some (GenerativeModel k hm) \<Longrightarrow>
     model c = Some hm"
  by (auto simp add: initialize_client_def Let_def split: if_splits)

lemma initialize_client_empty_model:
  "model a = Some [] \<Longrightarrow> b = a\<lparr>model := None\<rparr> \<Longrightarrow>
     initialize_client avail a = initialize_client avail b"
  by (simp add: initialize_client_def Let_def)

lemma initialize_client_unknown:
  "provider self \<notin> {''gemini'', ''openai'', ''anthropic'', ''groq''} \<Longrightarrow>
     initialize_client avail self = Inl (ValueError (''Unknown provider: '' @ provider self))"
  by (simp add: initialize_client_def)

lemma gemini_no_key:
  "provider self = ''gemini'' \<Longrightarrow> \<not> truthy (config self ''gemini_api_key'') \<Longrightarrow>
     (case initialize_client avail self of Inl e \<Rightarrow> ConfigurationError e | Inr c \<Rightarrow> False)"
  by (simp add: initialize_client_def Let_def)

lemma openai_no_key:
  "provider self = ''openai'' \<Longrightarrow> \<not> truthy (config self ''openai_api_key'') \<Longrightarrow>
     (case initialize_client avail self of Inl e \<Rightarrow> ConfigurationError e | Inr c \<Rightarrow> False)"
  by (simp add: initialize_client_def Let_def)

lemma anthropic_no_key:
  "provider self = ''anthropic'' \<Longrightarrow> \<not> truthy (config self ''anthropic_api_key'') \<Longrightarrow>
     (case initialize_client avail self of Inl e \<Rightarrow> ConfigurationError e | Inr c \<Rightarrow> False)"
  by (simp add: initialize_client_def Let_def)

lemma groq_no_key:
  "provider self = ''groq'' \<Longrightarrow> \<not> truthy (config self ''groq_api_key'') \<Longrightarrow>
     (case initialize_client avail self of Inl e \<Rightarrow> ConfigurationError e | Inr c \<Rightarrow> False)"
  by (simp add: initialize_client_def Let_def)

subsection \<open>Facts about sending\<close>

lemma chat_provider: "provider (snd (chat api c m sp)) = provider c"
  by (simp add: chat_def Let_def split: option.splits sum.splits)

lemma chat_gemini_same: "provider c = ''gemini'' \<Longrightarrow> snd (chat api c m sp) = c"
  by (simp add: chat_def Let_def split: option.splits sum.splits)

lemma chat_success_history:
  assumes "provider c \<in> {''openai'', ''groq'', ''anthropic''}"
    and "chat api c m sp = (Inr r, c')"
  shows "\<exists>reply. r = Some reply \<and>
           conversation_history c' =
             conversation_history c @ [mk_turn ''user'' m, mk_turn ''assistant'' reply]"
  using assms
  by (auto simp add: chat_def Let_def split: option.splits sum.splits if_splits)

text \<open>A failed call leaves the object of a Gemini, OpenAI or Groq client as it was.\<close>

lemma chat_failure_unchanged:
  assumes "provider c \<in> {''gemini'', ''openai'', ''groq''}"
    and "chat api c m sp = (Inl e, c')"
  shows "c' = c"
  using assms
  by (auto simp add: chat_def Let_def split: option.splits sum.splits if_splits)

lemma length_chats: "length (fst (chats c xs)) = length xs"
proof (induction xs arbitrary: c)
  case Nil
  then show ?case by simp
next
  case (Cons x xs)
  obtain api m sp where x: "x = (api, m, sp)" by (cases x) auto
  obtain r c1 where step: "chat api c m sp = (r, c1)" by (cases "chat api c m sp") auto
  obtain rs c2 where rest: "chats c1 xs = (rs, c2)" by (cases "chats c1 xs") auto
  have "length rs = length xs" using Cons.IH[of c1] rest by simp
  then show ?case using x step rest by simp
qed

text \<open>The transcript after a run of successful calls, from any starting transcript.\<close>

lemma chats_success_history:
  assumes "provider c \<in> {''openai'', ''groq'', ''anthropic''}"
    and "\<forall>r \<in> set (fst (chats c xs)). \<not> isl r"
  shows "conversation_history (snd (chats c xs)) =
           conversation_history c @
           concat (map (\<lambda>(x, r). [mk_turn ''user'' (fst (snd x)),
                                   mk_turn ''assistant'' (the (projr r))])
                       (zip xs (fst (chats c xs))))
         \<and> (\<forall>r \<in> set (fst (chats c xs)). r = Inr (Some (the (projr r))))"
  using assms
proof (induction xs arbitrary: c)
  case Nil
  then show ?case by simp
next
  case (Cons x xs)
  obtain api m sp where x: "x = (api, m, sp)" by (cases x) auto
  obtain r c1 where step: "chat api c m sp = (r, c1)" by (cases "chat api c m sp") auto
  obtain rs c2 where rest: "chats c1 xs = (rs, c2)" by (cases "chats c1 xs") auto
  have all: "chats c (x # xs) = (r # rs, c2)" using x step rest by simp
  have "\<not> isl r" using Cons.prems(2) all by simp
  then obtain v where r: "r = Inr v" by (cases r) auto
  from chat_success_history[OF Cons.prems(1) step[unfolded r]]
  obtain reply where v: "v = Some reply"
    and h1: "conversation_history c1 = conversation_history c @ [mk_turn ''user'' m, mk_turn ''assistant'' reply]"
    by blast
  have p1: "provider c1 \<in> {''openai'', ''groq'', ''anthropic''}"
    using chat_provider[of api c m sp] step Cons.prems(1) by simp
  have ok: "\<forall>r \<in> set (fst (chats c1 xs)). \<not> isl r"
    using Cons.prems(2) all rest by simp
  from Cons.IH[OF p1 ok] rest
  have ih: "conversation_history c2 = conversation_history c1 @
           concat (map (\<lambda>(x, r). [mk_turn ''user'' (fst (snd x)),
                                   mk_turn ''assistant'' (the (projr r))]) (zip xs rs))"
    and ih2: "\<forall>r \<in> set rs. r = Inr (Some (the (projr r)))" by simp_all
  show ?case using all ih ih2 h1 r v x by simp
qed

lemma nth_exchanges:
  assumes "length xs = length rs" and "i < length xs"
  shows "concat (map (\<lambda>(x, r). [f x, g r]) (zip xs rs)) ! (2 * i) = f (xs ! i)
       \<and> concat (map (\<lambda>(x, r). [f x, g r]) (zip xs rs)) ! (2 * i + 1) = g (rs ! i)"
  using assms
proof (induction xs rs arbitrary: i rule: list_induct2)
  case Nil
  then show ?case by simp
next
  case (Cons x xs r rs)
  show ?case
  proof (cases i)
    case 0
    then show ?thesis by simp
  next
    case (Suc j)
    then have "j < length xs" using Cons.prems by simp
    from Cons.IH[OF this] show ?thesis using Suc by simp
  qed
qed

lemma length_exchanges:
  "length xs = length rs \<Longrightarrow> length (concat (map (\<lambda>(x, r). [f x, g r]) (zip xs rs))) = 2 * length xs"
  by (induction xs rs rule: list_induct2) auto

section \<open>The claims\<close>

text \<open>
  C1. For Gemini the system prompt is meant for the first message only (the comment in
  \<^verbatim>\<open>chat\<close> says so), and the test for "first" is an empty transcript. The Gemini branch
  never appends to the transcript, so the test succeeds on every call. In the run below a
  client is constructed for \<open>gemini\<close> and sent \<open>a\<close> and then \<open>b\<close>, both with the system prompt
  \<open>S\<close>; the service answers with the text it received. The first input is the system
  prompt, two newlines and \<open>a\<close>, as claimed; the second input carries the system prompt
  again, where the claim has \<open>b\<close> alone.
\<close>

theorem gemini_second_send_prepends_again:
  "session all_available None [''GEMINI_API_KEY'' \<mapsto> ''k''] ''gemini'' None
     [(echoing, ''a'', Some ''S''), (echoing, ''b'', Some ''S'')]
   = Inr ([Inr (Some (''S'' @ [CHR 0x0A, CHR 0x0A] @ ''a'')),
           Inr (Some (''S'' @ [CHR 0x0A, CHR 0x0A] @ ''b''))], [])"
  by code_simp

text \<open>
  C2. For a client of provider \<open>openai\<close>, \<open>groq\<close> or \<open>anthropic\<close> with an empty transcript,
  after any run of calls of which none raised, the transcript has twice as many turns as
  there were calls; turn \<open>2 i\<close> is the user turn holding the message of call \<open>i\<close>, and turn
  \<open>2 i + 1\<close> is an assistant turn holding the reply that call \<open>i\<close> returned.
\<close>

theorem chats_transcript:
  assumes "provider c \<in> {''openai'', ''groq'', ''anthropic''}"
    and "conversation_history c = []"
    and "\<forall>r \<in> set (fst (chats c xs)). \<not> isl r"
  shows "length (conversation_history (snd (chats c xs))) = 2 * length xs
       \<and> (\<forall>i < length xs.
            conversation_history (snd (chats c xs)) ! (2 * i) = mk_turn ''user'' (fst (snd (xs ! i)))
          \<and> role (conversation_history (snd (chats c xs)) ! (2 * i + 1)) = ''assistant''
          \<and> fst (chats c xs) ! i
              = Inr (Some (content (conversation_history (snd (chats c xs)) ! (2 * i + 1)))))"
proof -
  let ?rs = "fst (chats c xs)"
  let ?h = "conversation_history (snd (chats c xs))"
  let ?e = "concat (map (\<lambda>(x, r). [mk_turn ''user'' (fst (snd x)),
                                   mk_turn ''assistant'' (the (projr r))]) (zip xs ?rs))"
  have len: "length xs = length ?rs" by (simp add: length_chats)
  from chats_success_history[OF assms(1) assms(3)] assms(2)
  have h: "?h = ?e" and rs: "\<forall>r \<in> set ?rs. r = Inr (Some (the (projr r)))" by simp_all
  have l: "length ?h = 2 * length xs"
    unfolding h by (rule length_exchanges[OF len])
  have "conversation_history (snd (chats c xs)) ! (2 * i) = mk_turn ''user'' (fst (snd (xs ! i)))
          \<and> role (conversation_history (snd (chats c xs)) ! (2 * i + 1)) = ''assistant''
          \<and> fst (chats c xs) ! i
              = Inr (Some (content (conversation_history (snd (chats c xs)) ! (2 * i + 1))))"
    if i: "i < length xs" for i
  proof -
    from nth_exchanges[OF len i, of "\<lambda>x. mk_turn ''user'' (fst (snd x))" "\<lambda>r. mk_turn ''assistant'' (the (projr r))"]
    have a: "?e ! (2 * i) = mk_turn ''user'' (fst (snd (xs ! i)))"
      and b: "?e ! (2 * i + 1) = mk_turn ''assistant'' (the (projr (?rs ! i)))" by simp_all
    have "?rs ! i \<in> set ?rs" using i len by simp
    with rs have c: "?rs ! i = Inr (Some (the (projr (?rs ! i))))" by blast
    show ?thesis unfolding h using a b c by (simp add: mk_turn_def)
  qed
  with l show ?thesis by blast
qed

theorem chats_transcript_witness:
  "provider (ready_client ''groq'' (Groq ''k'') ''llama-3.3-70b-versatile'' [])
     \<in> {''openai'', ''groq'', ''anthropic''}
   \<and> conversation_history (ready_client ''groq'' (Groq ''k'') ''llama-3.3-70b-versatile'' []) = []
   \<and> fst (chats (ready_client ''groq'' (Groq ''k'') ''llama-3.3-70b-versatile'' [])
        [(answering ''r1'', ''a'', None), (answering ''r2'', ''b'', Some ''S'')])
      = [Inr (Some ''r1''), Inr (Some ''r2'')]
   \<and> length (conversation_history (snd (chats
        (ready_client ''groq'' (Groq ''k'') ''llama-3.3-70b-versatile'' [])
        [(answering ''r1'', ''a'', None), (answering ''r2'', ''b'', Some ''S'')]))) = 2 * 2
   \<and> conversation_history (snd (chats
        (ready_client ''groq'' (Groq ''k'') ''llama-3.3-70b-versatile'' [])
        [(answering ''r1'', ''a'', None), (answering ''r2'', ''b'', Some ''S'')]))
      = [mk_turn ''user'' ''a'', mk_turn ''assistant'' ''r1'',
         mk_turn ''user'' ''b'', mk_turn ''assistant'' ''r2'']"
  using chats_transcript[of "ready_client ''groq'' (Groq ''k'') ''llama-3.3-70b-versatile'' []"
        "[(answering ''r1'', ''a'', None), (answering ''r2'', ''b'', Some ''S'')]"]
  by (simp add: ready_client_def chat_def answering_def mk_turn_def)

text \<open>
  C3. A failed call does not always leave the transcript as it was. The Anthropic branch
  appends the user turn before it calls the service and takes nothing back when the call
  raises, while the OpenAI and Groq branches append only after the call has returned. In
  the run below a client is constructed for \<open>anthropic\<close> and its one call raises: the
  transcript, empty before, holds the user turn afterwards. In the interactive loop the
  exception is caught and the next line is sent on top of that turn, so that two user turns
  follow each other.
\<close>

theorem anthropic_failed_send_alters_transcript:
  "session all_available None [''ANTHROPIC_API_KEY'' \<mapsto> ''k''] ''anthropic'' None
     [(failing ''boom'', ''hi'', None)]
   = Inr ([Inl (ProviderError ''boom'')], [mk_turn ''user'' ''hi''])
   \<and> conversation_history (snd (interactive_mode
        (ready_client ''anthropic'' (Anthropic ''k'') ''claude-3-5-sonnet-20241022'' []) None
        [Line ''hi'' (failing ''boom''), Line ''again'' (answering ''ok'')]))
      = [mk_turn ''user'' ''hi'', mk_turn ''user'' ''again'', mk_turn ''assistant'' ''ok'']"
  by code_simp

text \<open>
  C4. For each of the four selectors, when the credentials file is absent or lacks the
  provider's key and the provider's environment variable is unset, the constructor fails
  with a configuration error and returns no object, whatever libraries are installed.
  \<^verbatim>\<open>initialize_client\<close> fails with \<^verbatim>\<open>ValueError\<close> for every selector that is not one
  of the four names; the selector it sees is the constructor's argument in lower case, so
  the constructor fails in the same way for every argument whose lower-case form is not
  one of the four names.
\<close>

theorem create_fails_without_credential_or_known_provider:
  "(persisted fs ''gemini_api_key'' = None \<and> env ''GEMINI_API_KEY'' = None \<longrightarrow>
      (case AIClient_init avail fs env ''gemini'' m of
         Inl e \<Rightarrow> ConfigurationError e | Inr c \<Rightarrow> False))
   \<and> (persisted fs ''openai_api_key'' = None \<and> env ''OPENAI_API_KEY'' = None \<longrightarrow>
      (case AIClient_init avail fs env ''openai'' m of
         Inl e \<Rightarrow> ConfigurationError e | Inr c \<Rightarrow> False))
   \<and> (persisted fs ''anthropic_api_key'' = None \<and> env ''ANTHROPIC_API_KEY'' = None \<longrightarrow>
      (case AIClient_init avail fs env ''anthropic'' m of
         Inl e \<Rightarrow> ConfigurationError e | Inr c \<Rightarrow> False))
   \<and> (persisted fs ''groq_api_key'' = None \<and> env ''GROQ_API_KEY'' = None \<longrightarrow>
      (case AIClient_init avail fs env ''groq'' m of
         Inl e \<Rightarrow> ConfigurationError e | Inr c \<Rightarrow> False))
   \<and> (provider self \<notin> {''gemini'', ''openai'', ''anthropic'', ''groq''} \<longrightarrow>
      initialize_client avail self = Inl (ValueError (''Unknown provider: '' @ provider self)))
   \<and> (lower s \<notin> {''gemini'', ''openai'', ''anthropic'', ''groq''} \<longrightarrow>
      AIClient_init avail fs env s m = Inl (ValueError (''Unknown provider: '' @ lower s)))"
proof -
  let ?new = "\<lambda>p. load_config fs env
          \<lparr>provider = lower p, model = m,
           conversation_history = [], config = Map.empty, client = None\<rparr>"
  have g: "case AIClient_init avail fs env ''gemini'' m of
         Inl e \<Rightarrow> ConfigurationError e | Inr c \<Rightarrow> False"
    if "persisted fs ''gemini_api_key'' = None" "env ''GEMINI_API_KEY'' = None"
    unfolding AIClient_init_def
    by (rule gemini_no_key)
       (simp_all add: load_config_other lower_names config_load_config that getenv_def)
  have o: "case AIClient_init avail fs env ''openai'' m of
         Inl e \<Rightarrow> ConfigurationError e | Inr c \<Rightarrow> False"
    if "persisted fs ''openai_api_key'' = None" "env ''OPENAI_API_KEY'' = None"
    unfolding AIClient_init_def
    by (rule openai_no_key)
       (simp_all add: load_config_other lower_names config_load_config that getenv_def)
  have a: "case AIClient_init avail fs env ''anthropic'' m of
         Inl e \<Rightarrow> ConfigurationError e | Inr c \<Rightarrow> False"
    if "persisted fs ''anthropic_api_key'' = None" "env ''ANTHROPIC_API_KEY'' = None"
    unfolding AIClient_init_def
    by (rule anthropic_no_key)
       (simp_all add: load_config_other lower_names config_load_config that getenv_def)
  have q: "case AIClient_init avail fs env ''groq'' m of
         Inl e \<Rightarrow> ConfigurationError e | Inr c \<Rightarrow> False"
    if "persisted fs ''groq_api_key'' = None" "env ''GROQ_API_KEY'' = None"
    unfolding AIClient_init_def
    by (rule groq_no_key)
       (simp_all add: load_config_other lower_names config_load_config that getenv_def)
  have u: "initialize_client avail self = Inl (ValueError (''Unknown provider: '' @ provider self))"
    if "provider self \<notin> {''gemini'', ''openai'', ''anthropic'', ''groq''}"
    using that by (rule initialize_client_unknown)
  have v: "AIClient_init avail fs env s m = Inl (ValueError (''Unknown provider: '' @ lower s))"
    if "lower s \<notin> {''gemini'', ''openai'', ''anthropic'', ''groq''}"
    using initialize_client_unknown[of "?new s" avail] that
    by (simp add: AIClient_init_def load_config_other)
  from g o a q u v show ?thesis by blast
qed

theorem create_fails_witness:
  "persisted None ''gemini_api_key'' = None \<and> persisted None ''openai_api_key'' = None
   \<and> persisted None ''anthropic_api_key'' = None \<and> persisted None ''groq_api_key'' = None
   \<and> isl (AIClient_init all_available None Map.empty ''gemini'' None)
   \<and> isl (AIClient_init all_available None Map.empty ''openai'' None)
   \<and> isl (AIClient_init all_available None Map.empty ''anthropic'' None)
   \<and> isl (AIClient_init all_available None Map.empty ''groq'' None)
   \<and> provider (ready_client ''mistral'' (Groq ''k'') ''m'' []) \<noteq> ''groq''
   \<and> initialize_client all_available (ready_client ''mistral'' (Groq ''k'') ''m'' [])
       = Inl (ValueError ''Unknown provider: mistral'')
   \<and> lower ''Mistral'' = ''mistral''
   \<and> AIClient_init all_available None Map.empty ''Mistral'' None
       = Inl (ValueError ''Unknown provider: mistral'')"
proof -
  have l: "lower ''Mistral'' = ''mistral''" by code_simp
  have p: "provider (ready_client ''mistral'' (Groq ''k'') ''m'' []) = ''mistral''"
    by (simp add: ready_client_def)
  show ?thesis
    using create_fails_without_credential_or_known_provider
            [of None Map.empty all_available None
                "ready_client ''mistral'' (Groq ''k'') ''m'' []" "''Mistral''"]
    by (simp add: l p persisted_def split: sum.splits)
qed

text \<open>
  C5. When the constructor succeeds, a model argument that is given, that is, not the empty
  string, which \<^verbatim>\<open>self.model or default\<close> takes for no argument (see C9), is the model of
  the object, and the model a Gemini handle was built with; with no model argument the
  model is the provider's default, \<open>llama-3.3-70b-versatile\<close> for \<open>groq\<close> and
  \<open>claude-3-5-sonnet-20241022\<close> for \<open>anthropic\<close>.
\<close>

theorem effective_model:
  assumes "AIClient_init avail fs env s mo = Inr c"
  shows "(\<forall>m. mo = Some m \<and> m \<noteq> [] \<longrightarrow>
            model c = Some m \<and> (\<forall>k hm. client c = Some (GenerativeModel k hm) \<longrightarrow> hm = m))
       \<and> (mo = None \<longrightarrow>
            (s = ''gemini'' \<longrightarrow> model c = Some ''gemini-pro'')
          \<and> (s = ''openai'' \<longrightarrow> model c = Some ''gpt-4-turbo-preview'')
          \<and> (s = ''anthropic'' \<longrightarrow> model c = Some ''claude-3-5-sonnet-20241022'')
          \<and> (s = ''groq'' \<longrightarrow> model c = Some ''llama-3.3-70b-versatile''))"
proof -
  let ?self = "load_config fs env
          \<lparr>provider = lower s, model = mo,
           conversation_history = [], config = Map.empty, client = None\<rparr>"
  have init: "initialize_client avail ?self = Inr c"
    using assms by (simp add: AIClient_init_def)
  have m: "model ?self = mo" and p: "provider ?self = lower s"
    by (simp_all add: load_config_other)
  note im = initialize_client_model[OF init, unfolded m p]
  have a: "model c = Some m \<and> (\<forall>k hm. client c = Some (GenerativeModel k hm) \<longrightarrow> hm = m)"
    if "mo = Some m" "m \<noteq> []" for m
    using im that initialize_client_gemini_handle[OF init] by auto
  have b: "mo = None \<longrightarrow>
            (s = ''gemini'' \<longrightarrow> model c = Some ''gemini-pro'')
          \<and> (s = ''openai'' \<longrightarrow> model c = Some ''gpt-4-turbo-preview'')
          \<and> (s = ''anthropic'' \<longrightarrow> model c = Some ''claude-3-5-sonnet-20241022'')
          \<and> (s = ''groq'' \<longrightarrow> model c = Some ''llama-3.3-70b-versatile'')"
    using im by (auto simp add: lower_names)
  from a b show ?thesis by blast
qed

theorem effective_model_witness:
  "\<not> isl (AIClient_init all_available None [''GEMINI_API_KEY'' \<mapsto> ''k''] ''gemini'' (Some ''gemini-1.5-flash''))
   \<and> model (projr (AIClient_init all_available None [''GEMINI_API_KEY'' \<mapsto> ''k''] ''gemini''
        (Some ''gemini-1.5-flash''))) = Some ''gemini-1.5-flash''
   \<and> client (projr (AIClient_init all_available None [''GEMINI_API_KEY'' \<mapsto> ''k''] ''gemini''
        (Some ''gemini-1.5-flash''))) = Some (GenerativeModel ''k'' ''gemini-1.5-flash'')
   \<and> \<not> isl (AIClient_init all_available None [''GROQ_API_KEY'' \<mapsto> ''k''] ''groq'' None)
   \<and> model (projr (AIClient_init all_available None [''GROQ_API_KEY'' \<mapsto> ''k''] ''groq'' None))
       = Some ''llama-3.3-70b-versatile''"
proof -
  let ?X = "AIClient_init all_available None [''GEMINI_API_KEY'' \<mapsto> ''k''] ''gemini''
              (Some ''gemini-1.5-flash'')"
  let ?Y = "AIClient_init all_available None [''GROQ_API_KEY'' \<mapsto> ''k''] ''groq'' None"
  have nx: "\<not> isl ?X" by code_simp
  have ny: "\<not> isl ?Y" by code_simp
  have hx: "client (projr ?X) = Some (GenerativeModel ''k'' ''gemini-1.5-flash'')" by code_simp
  have ex: "?X = Inr (projr ?X)" using nx by simp
  have ey: "?Y = Inr (projr ?Y)" using ny by simp
  from effective_model[OF ex] effective_model[OF ey] nx ny hx show ?thesis by simp
qed

text \<open>
  C6. The claim fails for Gemini, whose branch never writes the transcript: after
  \<^verbatim>\<open>clear_history\<close> and a successful call the transcript is empty, not two turns long.
\<close>

theorem clear_then_send_gemini_counterexample:
  "fst (chat (answering ''ok'')
          (clear_history (ready_client ''gemini'' (GenerativeModel ''k'' ''gemini-pro'')
                            ''gemini-pro'' []))
          ''hello'' None) = Inr (Some ''ok'')
   \<and> length (conversation_history (snd (chat (answering ''ok'')
          (clear_history (ready_client ''gemini'' (GenerativeModel ''k'' ''gemini-pro'')
                            ''gemini-pro'' []))
          ''hello'' None))) \<noteq> 2"
  by code_simp

text \<open>
  C6, amended. For \<open>openai\<close>, \<open>groq\<close> and \<open>anthropic\<close> and every prior transcript,
  \<^verbatim>\<open>clear_history\<close> followed by a call that does not raise leaves exactly two turns, the
  new user turn and the assistant turn with the reply; for \<open>gemini\<close> it leaves the empty
  transcript.
\<close>

theorem clear_then_send:
  "(provider c \<in> {''openai'', ''groq'', ''anthropic''}
      \<and> fst (chat api (clear_history c) m sp) = Inr r \<longrightarrow>
      r \<noteq> None
      \<and> conversation_history (snd (chat api (clear_history c) m sp))
          = [mk_turn ''user'' m, mk_turn ''assistant'' (the r)])
   \<and> (provider c = ''gemini'' \<longrightarrow>
      conversation_history (snd (chat api (clear_history c) m sp)) = [])"
proof -
  have a: "r \<noteq> None
      \<and> conversation_history (snd (chat api (clear_history c) m sp))
          = [mk_turn ''user'' m, mk_turn ''assistant'' (the r)]"
    if p: "provider c \<in> {''openai'', ''groq'', ''anthropic''}"
      and ok: "fst (chat api (clear_history c) m sp) = Inr r"
  proof -
    have p': "provider (clear_history c) \<in> {''openai'', ''groq'', ''anthropic''}"
      using p by (simp add: clear_history_def)
    have e: "chat api (clear_history c) m sp = (Inr r, snd (chat api (clear_history c) m sp))"
      using ok by (metis prod.collapse)
    from chat_success_history[OF p' e] show ?thesis
      by (auto simp add: clear_history_def)
  qed
  have b: "conversation_history (snd (chat api (clear_history c) m sp)) = []"
    if "provider c = ''gemini''"
  proof -
    have "provider (clear_history c) = ''gemini''" using that by (simp add: clear_history_def)
    from chat_gemini_same[OF this] show ?thesis by (simp add: clear_history_def)
  qed
  from a b show ?thesis by blast
qed

theorem clear_then_send_witness:
  "provider (ready_client ''anthropic'' (Anthropic ''k'') ''claude-3-5-sonnet-20241022''
       [mk_turn ''user'' ''old'', mk_turn ''assistant'' ''older''])
     \<in> {''openai'', ''groq'', ''anthropic''}
   \<and> fst (chat (answering ''ok'')
        (clear_history (ready_client ''anthropic'' (Anthropic ''k'') ''claude-3-5-sonnet-20241022''
           [mk_turn ''user'' ''old'', mk_turn ''assistant'' ''older'']))
        ''hello'' None) = Inr (Some ''ok'')
   \<and> conversation_history (snd (chat (answering ''ok'')
        (clear_history (ready_client ''anthropic'' (Anthropic ''k'') ''claude-3-5-sonnet-20241022''
           [mk_turn ''user'' ''old'', mk_turn ''assistant'' ''older'']))
        ''hello'' None))
      = [mk_turn ''user'' ''hello'', mk_turn ''assistant'' ''ok'']
   \<and> provider (ready_client ''gemini'' (GenerativeModel ''k'' ''gemini-pro'') ''gemini-pro'' [])
       = ''gemini''
   \<and> conversation_history (snd (chat (answering ''ok'')
        (clear_history (ready_client ''gemini'' (GenerativeModel ''k'' ''gemini-pro'')
           ''gemini-pro'' []))
        ''hello'' None)) = []"
proof -
  let ?a = "ready_client ''anthropic'' (Anthropic ''k'') ''claude-3-5-sonnet-20241022''
       [mk_turn ''user'' ''old'', mk_turn ''assistant'' ''older'']"
  let ?g = "ready_client ''gemini'' (GenerativeModel ''k'' ''gemini-pro'') ''gemini-pro'' []"
  have pa: "provider ?a = ''anthropic''" and pg: "provider ?g = ''gemini''"
    by (simp_all add: ready_client_def)
  have ok: "fst (chat (answering ''ok'') (clear_history ?a) ''hello'' None) = Inr (Some ''ok'')"
    by code_simp
  from clear_then_send[of ?a "answering ''ok''" "''hello''" None "Some ''ok''"]
       clear_then_send[of ?g "answering ''ok''" "''hello''" None]
       pa pg ok
  show ?thesis by simp
qed

text \<open>
  C7. For Gemini a call of \<^verbatim>\<open>chat\<close> leaves the whole object as it was, and with it the
  transcript, whatever the message, the system prompt, the prior transcript and the answer
  of the service, an exception included.
\<close>

theorem gemini_chat_leaves_transcript:
  "provider c = ''gemini'' \<Longrightarrow>
     snd (chat api c m sp) = c
     \<and> conversation_history (snd (chat api c m sp)) = conversation_history c"
  by (simp add: chat_gemini_same)

theorem gemini_chat_leaves_transcript_witness:
  "provider (ready_client ''gemini'' (GenerativeModel ''k'' ''gemini-pro'') ''gemini-pro''
       [mk_turn ''user'' ''old'']) = ''gemini''
   \<and> conversation_history (snd (chat (answering ''ok'')
        (ready_client ''gemini'' (GenerativeModel ''k'' ''gemini-pro'') ''gemini-pro''
           [mk_turn ''user'' ''old''])
        ''hello'' (Some ''S''))) = [mk_turn ''user'' ''old'']"
proof -
  let ?g = "ready_client ''gemini'' (GenerativeModel ''k'' ''gemini-pro'') ''gemini-pro''
       [mk_turn ''user'' ''old'']"
  have pg: "provider ?g = ''gemini''" by (simp add: ready_client_def)
  have h: "conversation_history ?g = [mk_turn ''user'' ''old'']" by (simp add: ready_client_def)
  from gemini_chat_leaves_transcript[OF pg, of "answering ''ok''" "''hello''" "Some ''S''"] pg h
  show ?thesis by simp
qed

text \<open>
  C8. Whatever mapping a client saves, whatever the file held before, and whichever client
  loads afterwards: every key of the saved mapping has its saved value in the loaded
  mapping, and each of the four provider keys that the saved mapping lacks has the value of
  its environment variable, the empty string when that variable is unset.
\<close>

theorem save_load_roundtrip:
  "(\<forall>k \<in> dom (config saver).
       config (load_config (save_config saver fs) env loader) k = config saver k)
   \<and> (''gemini_api_key'' \<notin> dom (config saver) \<longrightarrow>
        config (load_config (save_config saver fs) env loader) ''gemini_api_key''
          = Some (getenv env ''GEMINI_API_KEY'' ''''))
   \<and> (''openai_api_key'' \<notin> dom (config saver) \<longrightarrow>
        config (load_config (save_config saver fs) env loader) ''openai_api_key''
          = Some (getenv env ''OPENAI_API_KEY'' ''''))
   \<and> (''anthropic_api_key'' \<notin> dom (config saver) \<longrightarrow>
        config (load_config (save_config saver fs) env loader) ''anthropic_api_key''
          = Some (getenv env ''ANTHROPIC_API_KEY'' ''''))
   \<and> (''groq_api_key'' \<notin> dom (config saver) \<longrightarrow>
        config (load_config (save_config saver fs) env loader) ''groq_api_key''
          = Some (getenv env ''GROQ_API_KEY'' ''''))"
  by (auto simp add: config_load_config save_config_def persisted_def dom_def split: option.splits)

theorem save_load_roundtrip_witness:
  "''groq_api_key'' \<in> dom (config ((ready_client ''groq'' (Groq ''g1'') ''m'' [])
        \<lparr>config := [''groq_api_key'' \<mapsto> ''g1'']\<rparr>))
   \<and> ''gemini_api_key'' \<notin> dom (config ((ready_client ''groq'' (Groq ''g1'') ''m'' [])
        \<lparr>config := [''groq_api_key'' \<mapsto> ''g1'']\<rparr>))
   \<and> config (load_config
        (save_config ((ready_client ''groq'' (Groq ''g1'') ''m'' [])
           \<lparr>config := [''groq_api_key'' \<mapsto> ''g1'']\<rparr>) None)
        [''GEMINI_API_KEY'' \<mapsto> ''e1'', ''GROQ_API_KEY'' \<mapsto> ''e2'']
        (ready_client ''gemini'' (GenerativeModel ''x'' ''m'') ''m'' [])) ''groq_api_key''
      = Some ''g1''
   \<and> config (load_config
        (save_config ((ready_client ''groq'' (Groq ''g1'') ''m'' [])
           \<lparr>config := [''groq_api_key'' \<mapsto> ''g1'']\<rparr>) None)
        [''GEMINI_API_KEY'' \<mapsto> ''e1'', ''GROQ_API_KEY'' \<mapsto> ''e2'']
        (ready_client ''gemini'' (GenerativeModel ''x'' ''m'') ''m'' [])) ''gemini_api_key''
      = Some ''e1''
   \<and> config (load_config
        (save_config ((ready_client ''groq'' (Groq ''g1'') ''m'' [])
           \<lparr>config := [''groq_api_key'' \<mapsto> ''g1'']\<rparr>) None)
        [''GEMINI_API_KEY'' \<mapsto> ''e1'', ''GROQ_API_KEY'' \<mapsto> ''e2'']
        (ready_client ''gemini'' (GenerativeModel ''x'' ''m'') ''m'' [])) ''openai_api_key''
      = Some ''''"
proof -
  let ?s = "(ready_client ''groq'' (Groq ''g1'') ''m'' [])\<lparr>config := [''groq_api_key'' \<mapsto> ''g1'']\<rparr>"
  have c: "config ?s = [''groq_api_key'' \<mapsto> ''g1'']" by simp
  from save_load_roundtrip[of ?s None "[''GEMINI_API_KEY'' \<mapsto> ''e1'', ''GROQ_API_KEY'' \<mapsto> ''e2'']"
         "ready_client ''gemini'' (GenerativeModel ''x'' ''m'') ''m'' []"]
  show ?thesis unfolding c by (simp add: getenv_def)
qed

text \<open>
  C9. A model argument equal to the empty string gives, for every selector, credentials
  file, environment and set of installed libraries, exactly what no model argument gives,
  the error or the object; when an object results, its model is the default of the
  provider selected and not the empty string.
\<close>

theorem empty_override:
  "AIClient_init avail fs env s (Some []) = AIClient_init avail fs env s None
   \<and> (\<forall>c. AIClient_init avail fs env s (Some []) = Inr c \<longrightarrow>
          (s = ''gemini'' \<longrightarrow> model c = Some ''gemini-pro'')
        \<and> (s = ''openai'' \<longrightarrow> model c = Some ''gpt-4-turbo-preview'')
        \<and> (s = ''anthropic'' \<longrightarrow> model c = Some ''claude-3-5-sonnet-20241022'')
        \<and> (s = ''groq'' \<longrightarrow> model c = Some ''llama-3.3-70b-versatile''))"
proof -
  let ?a = "load_config fs env
          \<lparr>provider = lower s, model = Some [],
           conversation_history = [], config = Map.empty, client = None\<rparr>"
  let ?b = "load_config fs env
          \<lparr>provider = lower s, model = None,
           conversation_history = [], config = Map.empty, client = None\<rparr>"
  have m: "model ?a = Some []" and p: "provider ?a = lower s"
    by (simp_all add: load_config_other)
  have ab: "?b = ?a\<lparr>model := None\<rparr>"
    by (simp add: load_config_model_update[symmetric])
  have eq: "AIClient_init avail fs env s (Some []) = AIClient_init avail fs env s None"
    unfolding AIClient_init_def by (rule initialize_client_empty_model[OF m ab])
  have "(s = ''gemini'' \<longrightarrow> model c = Some ''gemini-pro'')
        \<and> (s = ''openai'' \<longrightarrow> model c = Some ''gpt-4-turbo-preview'')
        \<and> (s = ''anthropic'' \<longrightarrow> model c = Some ''claude-3-5-sonnet-20241022'')
        \<and> (s = ''groq'' \<longrightarrow> model c = Some ''llama-3.3-70b-versatile'')"
    if init: "AIClient_init avail fs env s (Some []) = Inr c" for c
  proof -
    have i: "initialize_client avail ?a = Inr c"
      using init by (simp add: AIClient_init_def)
    from initialize_client_model[OF i, unfolded m p]
    show ?thesis by (auto simp add: lower_names)
  qed
  with eq show ?thesis by blast
qed

theorem empty_override_witness:
  "\<not> isl (AIClient_init all_available None [''ANTHROPIC_API_KEY'' \<mapsto> ''k''] ''anthropic'' (Some []))
   \<and> model (projr (AIClient_init all_available None [''ANTHROPIC_API_KEY'' \<mapsto> ''k''] ''anthropic''
        (Some []))) = Some ''claude-3-5-sonnet-20241022''"
proof -
  let ?X = "AIClient_init all_available None [''ANTHROPIC_API_KEY'' \<mapsto> ''k''] ''anthropic'' (Some [])"
  have nx: "\<not> isl ?X" by code_simp
  have ex: "?X = Inr (projr ?X)" using nx by simp
  from empty_override[of all_available None "[''ANTHROPIC_API_KEY'' \<mapsto> ''k'']" "''anthropic''"]
       ex nx
  show ?thesis by metis
qed


end
